theory Spec2Isabelle
  imports Main
begin

section \<open>The preprocessing command line of axolotl\<close>

text \<open>
  This theory embeds \<^verbatim>\<open>do_cli\<close> of \<^verbatim>\<open>src/axolotl/cli/preprocess.py\<close>.
  The function is a coordinator: it reads a configuration, calls a number of
  collaborators that live in other modules and mutates the configuration object on
  the way. The embedding makes three things explicit.

  \<^item> Exceptions are values: a step returns \<open>Inl e\<close> when it raises \<open>e\<close>.
  \<^item> The collaborators are parameters, collected in the record \<open>env\<close>: for every call
    the environment says whether it returns or which exception it raises.
  \<^item> Every call to a collaborator and every log record is appended to a trace, so
    that "is called", "is never called" and "is called before" are statements about a
    list of events.
\<close>

subsection \<open>Exceptions\<close>

text \<open>
  Python separates the exceptions that derive from \<^verbatim>\<open>Exception\<close> from those that derive
  from \<^verbatim>\<open>BaseException\<close> only (\<^verbatim>\<open>KeyboardInterrupt\<close>, \<^verbatim>\<open>SystemExit\<close>,
  \<^verbatim>\<open>GeneratorExit\<close>). The handler \<^verbatim>\<open>except Exception\<close> of line 107 catches the former
  and lets the latter through. The string is the name of the class.
\<close>

datatype exc = Exception string | BaseException string

fun isinstance_Exception :: "exc \<Rightarrow> bool" where
  "isinstance_Exception (Exception _) = True"
| "isinstance_Exception (BaseException _) = False"

subsection \<open>Configuration and command-line arguments\<close>

text \<open>
  The configuration is a dictionary whose missing keys read as \<^verbatim>\<open>None\<close>; an optional
  field is an \<open>option\<close>. Only the fields that \<^verbatim>\<open>do_cli\<close> reads or writes are kept.
  The path of a dataset descriptor is a string. The field \<^verbatim>\<open>datasets\<close> is \<open>None\<close> when the
  configuration has no such key.
\<close>

record dataset =
  path :: string

record cfg =
  chat_template :: "string option"
  default_system_message :: "string option"
  dataset_prepared_path :: "string option"
  datasets :: "dataset list option"
  is_preprocess :: bool
  rl :: "string option"
  base_model :: "string option"
  dataset_file :: "string option"

record cli_args =
  download :: bool

type_synonym kwargs = "(string \<times> string) list"

text \<open>Truthiness of an optional string: \<^verbatim>\<open>None\<close> and \<^verbatim>\<open>""\<close> are false.\<close>

fun truthy :: "string option \<Rightarrow> bool" where
  "truthy None = False"
| "truthy (Some s) = (s \<noteq> [])"

text \<open>What an f-string prints for an optional string.\<close>

fun py_format :: "string option \<Rightarrow> string" where
  "py_format None = ''None''"
| "py_format (Some s) = s"

subsection \<open>String operations of the source\<close>

definition endswith :: "string \<Rightarrow> string \<Rightarrow> bool" where
  "endswith s suffix =
     (length suffix \<le> length s \<and> drop (length s - length suffix) s = suffix)"

text \<open>
  \<^verbatim>\<open>s.rsplit('.', 1)[0]\<close>: the text before the last dot, the whole string when it has
  no dot.
\<close>

definition rsplit_dot_head :: "string \<Rightarrow> string" where
  "rsplit_dot_head s =
     (if CHR ''.'' \<in> set s
      then rev (tl (dropWhile (\<lambda>c. c \<noteq> CHR ''.'') (rev s)))
      else s)"

text \<open>Lines 85 to 88: the path of the JSON-lines file.\<close>

definition jsonl_file_of :: "string \<Rightarrow> string \<Rightarrow> string" where
  "jsonl_file_of prepared p = prepared @ ''/'' @ rsplit_dot_head p @ ''.jsonl''"

text \<open>
  The stem of a path in the words of the specification: the base name (the text after
  the last slash) without its extension. It is not part of the source; it is what the
  specification compares \<open>jsonl_file_of\<close> with.
\<close>

definition basename :: "string \<Rightarrow> string" where
  "basename p = rev (takeWhile (\<lambda>c. c \<noteq> CHR ''/'') (rev p))"

definition spec_stem :: "string \<Rightarrow> string" where
  "spec_stem p = rsplit_dot_head (basename p)"

definition spec_artifact :: "string \<Rightarrow> string \<Rightarrow> string" where
  "spec_artifact prepared p = prepared @ ''/'' @ spec_stem p @ ''.jsonl''"

text \<open>The colour codes of colorama.\<close>

definition Fore_RED :: string where "Fore_RED = CHR 0x1B # ''[31m''"
definition Fore_GREEN :: string where "Fore_GREEN = CHR 0x1B # ''[32m''"
definition Fore_RESET :: string where "Fore_RESET = CHR 0x1B # ''[39m''"

subsection \<open>Events and the world\<close>

text \<open>
  One event per call to a collaborator, with the arguments of the call. A call of a
  loader also records the value of the caching flag that the loader sees. A
  registration records \<open>None\<close> when the function is called without an argument.
\<close>

datatype event =
    Print_axolotl_text_art
  | Load_cfg string kwargs
  | Check_accelerate_default_config
  | Check_user_token
  | Parse_args_into_dataclasses
  | Log_info string
  | Log_warning string
  | Register_chatml_template "string option"
  | Register_llama3_template "string option"
  | Enter_disable_datasets_caching
  | Exit_disable_datasets_caching
  | Load_rl_datasets cfg cli_args bool
  | Load_datasets cfg cli_args bool
  | Convert string string
  | From_pretrained "string option"

record world =
  caching_enabled :: bool
  trace :: "event list"

text \<open>
  The collaborators. A procedure is given by its outcome: \<open>None\<close> when it returns,
  \<open>Some e\<close> when it raises \<open>e\<close>. The collaborators do not change the configuration.
  The constant \<^verbatim>\<open>DEFAULT_DATASET_PREPARED_PATH\<close> is defined in another module and is a
  parameter too.
\<close>

record env =
  print_axolotl_text_art :: "exc option"
  load_cfg :: "string \<Rightarrow> kwargs \<Rightarrow> exc + cfg"
  check_accelerate_default_config :: "exc option"
  check_user_token :: "exc option"
  parse_args_into_dataclasses :: "exc + cli_args"
  register_chatml_template :: "string option \<Rightarrow> exc option"
  register_llama3_template :: "string option \<Rightarrow> exc option"
  load_rl_datasets :: "cfg \<Rightarrow> cli_args \<Rightarrow> exc option"
  load_datasets :: "cfg \<Rightarrow> cli_args \<Rightarrow> exc option"
  convert :: "string \<Rightarrow> string \<Rightarrow> exc option"
  from_pretrained :: "string option \<Rightarrow> exc option"
  DEFAULT_DATASET_PREPARED_PATH :: string

subsection \<open>Sequencing\<close>

type_synonym 'a run = "world \<Rightarrow> (exc + 'a) \<times> world"

definition emit :: "event \<Rightarrow> world \<Rightarrow> world" where
  "emit e w = w\<lparr>trace := trace w @ [e]\<rparr>"

definition return :: "'a \<Rightarrow> 'a run" where
  "return x w = (Inr x, w)"

definition raise :: "exc \<Rightarrow> 'a run" where
  "raise e w = (Inl e, w)"

text \<open>Statement after statement: the second runs only when the first did not raise.\<close>

definition and_then :: "'a run \<Rightarrow> ('a \<Rightarrow> 'b run) \<Rightarrow> 'b run" where
  "and_then m f w = (case m w of (Inl e, w') \<Rightarrow> (Inl e, w') | (Inr x, w') \<Rightarrow> f x w')"

text \<open>A call of a procedure and a call of a function that returns a value.\<close>

definition call :: "event \<Rightarrow> exc option \<Rightarrow> unit run" where
  "call e outcome w = (case outcome of None \<Rightarrow> (Inr (), emit e w) | Some x \<Rightarrow> (Inl x, emit e w))"

definition call_value :: "event \<Rightarrow> exc + 'a \<Rightarrow> 'a run" where
  "call_value e outcome w = (outcome, emit e w)"

definition log_info :: "string \<Rightarrow> unit run" where
  "log_info msg = call (Log_info msg) None"

definition log_warning :: "string \<Rightarrow> unit run" where
  "log_warning msg = call (Log_warning msg) None"

text \<open>\<^verbatim>\<open>try: body except Exception: pass\<close>\<close>

definition try_except_Exception_pass :: "unit run \<Rightarrow> unit run" where
  "try_except_Exception_pass body w =
     (case body w of
        (Inl e, w') \<Rightarrow> if isinstance_Exception e then (Inr (), w') else (Inl e, w')
      | (Inr u, w') \<Rightarrow> (Inr u, w'))"

text \<open>
  Modelled from the spec: the context manager \<^verbatim>\<open>disable_datasets_caching\<close> of
  \<^verbatim>\<open>axolotl.utils.trainer\<close> is not among the sources. The specification describes it as
  a scope that disables the caching of datasets while it is active and restores the
  prior state on every exit path. The \<^verbatim>\<open>with\<close> statement of line 75 is Python's: the
  exit of the context manager runs when the body returns and when it raises, and the
  exception of the body propagates.
\<close>

definition with_disable_datasets_caching :: "'a run \<Rightarrow> 'a run" where
  "with_disable_datasets_caching body w =
     (let prior = caching_enabled w;
          w1 = emit Enter_disable_datasets_caching (w\<lparr>caching_enabled := False\<rparr>);
          (r, w2) = body w1;
          w3 = emit Exit_disable_datasets_caching (w2\<lparr>caching_enabled := prior\<rparr>)
      in (r, w3))"

subsection \<open>The steps of \<^verbatim>\<open>do_cli\<close>\<close>

text \<open>Lines 48 to 63.\<close>

definition register_templates :: "env \<Rightarrow> cfg \<Rightarrow> unit run" where
  "register_templates E c =
     (if chat_template c = Some ''chatml'' then
        (if truthy (default_system_message c) then
           and_then
             (log_info (''ChatML set. Adding default system message: ''
                          @ py_format (default_system_message c)))
             (\<lambda>_. call (Register_chatml_template (default_system_message c))
                     (register_chatml_template E (default_system_message c)))
         else call (Register_chatml_template None) (register_chatml_template E None))
      else if chat_template c = Some ''llama3'' then
        (if truthy (default_system_message c) then
           and_then
             (log_info (''LLaMA-3 set. Adding default system message: ''
                          @ py_format (default_system_message c)))
             (\<lambda>_. call (Register_llama3_template (default_system_message c))
                     (register_llama3_template E (default_system_message c)))
         else call (Register_llama3_template None) (register_llama3_template E None))
      else return ())"

text \<open>Lines 65 to 73. The step returns the configuration, updated or not.\<close>

definition default_path_msg :: "env \<Rightarrow> string" where
  "default_path_msg E =
     Fore_RED @ ''preprocess CLI called without dataset_prepared_path set, ''
       @ ''using default path: '' @ DEFAULT_DATASET_PREPARED_PATH E @ Fore_RESET"

definition fill_dataset_prepared_path :: "env \<Rightarrow> cfg \<Rightarrow> cfg run" where
  "fill_dataset_prepared_path E c =
     (if \<not> truthy (dataset_prepared_path c) then
        and_then (log_warning (default_path_msg E))
          (\<lambda>_. return (c\<lparr>dataset_prepared_path := Some (DEFAULT_DATASET_PREPARED_PATH E)\<rparr>))
      else return c)"

text \<open>Lines 75 to 79.\<close>

definition materialize :: "env \<Rightarrow> cfg \<Rightarrow> cli_args \<Rightarrow> unit run" where
  "materialize E c a =
     with_disable_datasets_caching
       (if truthy (rl c) then
          (\<lambda>w. call (Load_rl_datasets c a (caching_enabled w)) (load_rl_datasets E c a) w)
        else
          (\<lambda>w. call (Load_datasets c a (caching_enabled w)) (load_datasets E c a) w))"

text \<open>
  Lines 81 to 93. The condition is evaluated from left to right: \<^verbatim>\<open>datasets[0]\<close> is
  read only when \<^verbatim>\<open>dataset_prepared_path\<close> is true. Subscripting \<^verbatim>\<open>None\<close> raises
  \<^verbatim>\<open>TypeError\<close> and subscripting an empty list raises \<^verbatim>\<open>IndexError\<close>.
\<close>

definition convert_csv :: "env \<Rightarrow> cfg \<Rightarrow> cfg run" where
  "convert_csv E c =
     (case dataset_prepared_path c of
        None \<Rightarrow> return c
      | Some prepared \<Rightarrow>
          if prepared = [] then return c
          else
            (case datasets c of
               None \<Rightarrow> raise (Exception ''TypeError'')
             | Some [] \<Rightarrow> raise (Exception ''IndexError'')
             | Some (d # _) \<Rightarrow>
                 if endswith (path d) ''.csv'' then
                   (let csv_file = path d;
                        jsonl_file = jsonl_file_of prepared (path d)
                    in and_then
                         (log_info (''Converting '' @ csv_file @ '' to '' @ jsonl_file @ ''...''))
                         (\<lambda>_. and_then
                            (call (Convert csv_file jsonl_file) (convert E csv_file jsonl_file))
                            (\<lambda>_. return (c\<lparr>dataset_file := Some jsonl_file\<rparr>))))
                 else return c))"

text \<open>
  Lines 95 to 109. The two context managers around the \<^verbatim>\<open>try\<close> statement only silence
  warnings and choose how tensors are allocated; they are left out.
\<close>

definition probe_weights :: "env \<Rightarrow> cfg \<Rightarrow> cli_args \<Rightarrow> unit run" where
  "probe_weights E c a =
     (if download a then
        (let model_name = base_model c
         in try_except_Exception_pass
              (call (From_pretrained model_name) (from_pretrained E model_name)))
      else return ())"

text \<open>Lines 111 to 115.\<close>

definition success_msg :: "cfg \<Rightarrow> string" where
  "success_msg c =
     Fore_GREEN @ ''Success! Preprocessed data path: `dataset_prepared_path: ''
       @ py_format (dataset_prepared_path c) @ ''`'' @ Fore_RESET"

definition report_success :: "cfg \<Rightarrow> unit run" where
  "report_success c = log_info (success_msg c)"

subsection \<open>The coordinator\<close>

text \<open>
  Lines 36 to 115. The Python function returns \<^verbatim>\<open>None\<close>; the model returns the final
  value of the local variable \<^verbatim>\<open>parsed_cfg\<close>, so that the updates of the configuration
  can be observed.
\<close>

definition do_cli :: "env \<Rightarrow> string \<Rightarrow> kwargs \<Rightarrow> cfg run" where
  "do_cli E config kw =
     and_then (call Print_axolotl_text_art (print_axolotl_text_art E)) (\<lambda>_.
     and_then (call_value (Load_cfg config kw) (load_cfg E config kw)) (\<lambda>c0.
     and_then (return (c0\<lparr>is_preprocess := True\<rparr>)) (\<lambda>c1.
     and_then (call Check_accelerate_default_config (check_accelerate_default_config E)) (\<lambda>_.
     and_then (call Check_user_token (check_user_token E)) (\<lambda>_.
     and_then (call_value Parse_args_into_dataclasses (parse_args_into_dataclasses E)) (\<lambda>a.
     and_then (register_templates E c1) (\<lambda>_.
     and_then (fill_dataset_prepared_path E c1) (\<lambda>c2.
     and_then (materialize E c2 a) (\<lambda>_.
     and_then (convert_csv E c2) (\<lambda>c3.
     and_then (probe_weights E c3 a) (\<lambda>_.
     and_then (report_success c3) (\<lambda>_.
     return c3))))))))))))"

text \<open>The events that a run appends to the trace.\<close>

definition new_events :: "'a run \<Rightarrow> world \<Rightarrow> event list" where
  "new_events m w = drop (length (trace w)) (trace (snd (m w)))"

text \<open>
  A run is steady when it only appends to the trace and leaves the caching flag as it
  found it. Every step of \<^verbatim>\<open>do_cli\<close> is steady; this is what makes the events of a
  sequence the events of its parts, one after the other.
\<close>

definition steady :: "'a run \<Rightarrow> bool" where
  "steady m = (\<forall>w. (\<exists>evs. trace (snd (m w)) = trace w @ evs) \<and>
                    caching_enabled (snd (m w)) = caching_enabled w)"

text \<open>
  Lines 38 to 93 on their own: everything \<^verbatim>\<open>do_cli\<close> does before the probe, returning
  the configuration and the command-line arguments that the rest of the function uses.
\<close>

definition before_probe :: "env \<Rightarrow> string \<Rightarrow> kwargs \<Rightarrow> (cfg \<times> cli_args) run" where
  "before_probe E config kw =
     and_then (call Print_axolotl_text_art (print_axolotl_text_art E)) (\<lambda>_.
     and_then (call_value (Load_cfg config kw) (load_cfg E config kw)) (\<lambda>c0.
     and_then (return (c0\<lparr>is_preprocess := True\<rparr>)) (\<lambda>c1.
     and_then (call Check_accelerate_default_config (check_accelerate_default_config E)) (\<lambda>_.
     and_then (call Check_user_token (check_user_token E)) (\<lambda>_.
     and_then (call_value Parse_args_into_dataclasses (parse_args_into_dataclasses E)) (\<lambda>a.
     and_then (register_templates E c1) (\<lambda>_.
     and_then (fill_dataset_prepared_path E c1) (\<lambda>c2.
     and_then (materialize E c2 a) (\<lambda>_.
     and_then (convert_csv E c2) (\<lambda>c3.
     return (c3, a)))))))))))"

subsection \<open>Reading the trace\<close>

text \<open>The caching flag that a loader saw, and the configuration it was given.\<close>

fun seen_caching :: "event \<Rightarrow> bool option" where
  "seen_caching (Load_rl_datasets _ _ b) = Some b"
| "seen_caching (Load_datasets _ _ b) = Some b"
| "seen_caching _ = None"



fun is_convert :: "event \<Rightarrow> bool" where
  "is_convert (Convert _ _) = True"
| "is_convert _ = False"

fun is_probe :: "event \<Rightarrow> bool" where
  "is_probe (From_pretrained _) = True"
| "is_probe _ = False"

text \<open>The events of materialization: entry and exit of the scope, and the loader calls.\<close>

fun in_materialization :: "event \<Rightarrow> bool" where
  "in_materialization Enter_disable_datasets_caching = True"
| "in_materialization Exit_disable_datasets_caching = True"
| "in_materialization (Load_rl_datasets _ _ _) = True"
| "in_materialization (Load_datasets _ _ _) = True"
| "in_materialization _ = False"

subsection \<open>A concrete run\<close>

text \<open>
  A configuration with a CSV dataset in a subdirectory, the ChatML template, an empty
  default system message and no \<^verbatim>\<open>dataset_prepared_path\<close>; and an environment in which
  every collaborator returns, except the loaders and the probe, whose outcomes are
  arguments.
\<close>

definition cfg_example :: cfg where
  "cfg_example =
     \<lparr>chat_template = Some ''chatml'',
      default_system_message = Some [],
      dataset_prepared_path = None,
      datasets = Some [\<lparr>path = ''data/train.csv''\<rparr>],
      is_preprocess = False,
      rl = None,
      base_model = Some ''org/unreachable-model'',
      dataset_file = None\<rparr>"

definition env_example :: "cfg \<Rightarrow> bool \<Rightarrow> exc option \<Rightarrow> exc option \<Rightarrow> env" where
  "env_example c dl loader probe =
     \<lparr>print_axolotl_text_art = None,
      load_cfg = (\<lambda>_ _. Inr c),
      check_accelerate_default_config = None,
      check_user_token = None,
      parse_args_into_dataclasses = Inr \<lparr>download = dl\<rparr>,
      register_chatml_template = (\<lambda>_. None),
      register_llama3_template = (\<lambda>_. None),
      load_rl_datasets = (\<lambda>_ _. loader),
      load_datasets = (\<lambda>_ _. loader),
      convert = (\<lambda>_ _. None),
      from_pretrained = (\<lambda>_. probe),
      DEFAULT_DATASET_PREPARED_PATH = ''last_run_prepared''\<rparr>"

definition world_example :: world where
  "world_example = \<lparr>caching_enabled = True, trace = []\<rparr>"

text \<open>The configuration of that run after the default path is filled in and after the
  conversion, and the events of the run up to the probe.\<close>

definition cfg_filled :: cfg where
  "cfg_filled = cfg_example\<lparr>is_preprocess := True, dataset_prepared_path := Some ''last_run_prepared''\<rparr>"

definition cfg_converted :: cfg where
  "cfg_converted = cfg_filled\<lparr>dataset_file := Some ''last_run_prepared/data/train.jsonl''\<rparr>"

definition trace_before_probe :: "bool \<Rightarrow> event list" where
  "trace_before_probe dl =
     [Print_axolotl_text_art,
      Load_cfg ''examples/'' [],
      Check_accelerate_default_config,
      Check_user_token,
      Parse_args_into_dataclasses,
      Register_chatml_template None,
      Log_warning (Fore_RED @ ''preprocess CLI called without dataset_prepared_path set, using default path: last_run_prepared'' @ Fore_RESET),
      Enter_disable_datasets_caching,
      Load_datasets cfg_filled \<lparr>download = dl\<rparr> False,
      Exit_disable_datasets_caching,
      Log_info ''Converting data/train.csv to last_run_prepared/data/train.jsonl...'',
      Convert ''data/train.csv'' ''last_run_prepared/data/train.jsonl'']"

section \<open>Sequencing lemmas\<close>

text \<open>
  Steady runs compose. The events of a sequence are the events of its first part,
  followed by those of the second part when the first did not raise.
\<close>

lemma steadyI: "(\<And>w. \<exists>evs. trace (snd (m w)) = trace w @ evs) \<Longrightarrow>
   (\<And>w. caching_enabled (snd (m w)) = caching_enabled w) \<Longrightarrow> steady m"
  by (simp add: steady_def)

lemma steady_trace: "steady m \<Longrightarrow> trace (snd (m w)) = trace w @ new_events m w"
  by (auto simp: steady_def new_events_def dest!: spec [of _ w])

lemma steady_caching: "steady m \<Longrightarrow> caching_enabled (snd (m w)) = caching_enabled w"
  by (simp add: steady_def)

lemma steady_return [simp]: "steady (return x)"
  by (simp add: steady_def return_def)

lemma steady_raise [simp]: "steady (raise x)"
  by (simp add: steady_def raise_def)

lemma steady_call [simp]: "steady (call e out)"
  by (simp add: steady_def call_def emit_def split: option.splits)

lemma steady_call_value [simp]: "steady (call_value e out)"
  by (simp add: steady_def call_value_def emit_def)

lemma steady_log_info [simp]: "steady (log_info s)"
  by (simp add: log_info_def)

lemma steady_log_warning [simp]: "steady (log_warning s)"
  by (simp add: log_warning_def)

lemma steady_and_then [simp]:
  assumes "steady m" "\<And>x. steady (f x)"
  shows "steady (and_then m f)"
proof (rule steadyI)
  fix w
  obtain r w1 where mw: "m w = (r, w1)" by (cases "m w")
  have t1: "trace w1 = trace w @ new_events m w" and c1: "caching_enabled w1 = caching_enabled w"
    using steady_trace [OF assms(1), of w] steady_caching [OF assms(1), of w] mw by simp_all
  show "\<exists>evs. trace (snd (and_then m f w)) = trace w @ evs"
  proof (cases r)
    case (Inl e)
    then show ?thesis using mw t1 by (simp add: and_then_def)
  next
    case (Inr x)
    then show ?thesis
      using mw t1 steady_trace [OF assms(2), of x w1] by (simp add: and_then_def)
  qed
  show "caching_enabled (snd (and_then m f w)) = caching_enabled w"
  proof (cases r)
    case (Inl e)
    then show ?thesis using mw c1 by (simp add: and_then_def)
  next
    case (Inr x)
    then show ?thesis
      using mw c1 steady_caching [OF assms(2), of x w1] by (simp add: and_then_def)
  qed
qed

lemma steadyD:
  assumes "steady m" "m w = (r, w1)"
  obtains evs where "trace w1 = trace w @ evs" "new_events m w = evs"
    "caching_enabled w1 = caching_enabled w"
proof -
  from assms(1) obtain evs where e: "trace (snd (m w)) = trace w @ evs"
    and c: "caching_enabled (snd (m w)) = caching_enabled w"
    unfolding steady_def by blast
  have "new_events m w = evs"
    unfolding new_events_def e by simp
  with e c assms(2) that show thesis by simp
qed

lemma new_events_and_then:
  assumes "steady m" "\<And>x. steady (f x)"
  shows "new_events (and_then m f) w =
           new_events m w @ (case m w of (Inl e, w1) \<Rightarrow> [] | (Inr x, w1) \<Rightarrow> new_events (f x) w1)"
proof -
  obtain r w1 where mw: "m w = (r, w1)" by (cases "m w")
  from steadyD [OF assms(1) mw] obtain evs where
    t1: "trace w1 = trace w @ evs" and n1: "new_events m w = evs" by blast
  show ?thesis
  proof (cases r)
    case (Inl e)
    have "and_then m f w = (Inl e, w1)" using Inl mw by (simp add: and_then_def)
    then have "new_events (and_then m f) w = evs"
      unfolding new_events_def using t1 by simp
    then show ?thesis using Inl mw n1 by simp
  next
    case (Inr x)
    obtain r2 w2 where fw: "f x w1 = (r2, w2)" by (cases "f x w1")
    from steadyD [OF assms(2) fw] obtain evs2 where
      t2: "trace w2 = trace w1 @ evs2" and n2: "new_events (f x) w1 = evs2" by blast
    have "and_then m f w = (r2, w2)" using Inr mw fw by (simp add: and_then_def)
    then have "new_events (and_then m f) w = evs @ evs2"
      unfolding new_events_def using t1 t2 by simp
    then show ?thesis using Inr mw n1 n2 by simp
  qed
qed

lemma steady_try [simp]:
  assumes "steady body"
  shows "steady (try_except_Exception_pass body)"
proof (rule steadyI)
  fix w
  obtain r w1 where bw: "body w = (r, w1)" by (cases "body w")
  have t1: "trace w1 = trace w @ new_events body w" and c1: "caching_enabled w1 = caching_enabled w"
    using steady_trace [OF assms, of w] steady_caching [OF assms, of w] bw by simp_all
  have s: "snd (try_except_Exception_pass body w) = w1"
    using bw by (simp add: try_except_Exception_pass_def split: sum.splits)
  show "\<exists>evs. trace (snd (try_except_Exception_pass body w)) = trace w @ evs"
    using s t1 by simp
  show "caching_enabled (snd (try_except_Exception_pass body w)) = caching_enabled w"
    using s c1 by simp
qed

lemma steady_with [simp]:
  assumes "steady body"
  shows "steady (with_disable_datasets_caching body)"
proof (rule steadyI)
  fix w
  define w0 where "w0 = emit Enter_disable_datasets_caching (w\<lparr>caching_enabled := False\<rparr>)"
  obtain r w1 where bw: "body w0 = (r, w1)" by (cases "body w0")
  have t1: "trace w1 = trace w0 @ new_events body w0"
    using steady_trace [OF assms, of w0] bw by simp
  have s: "snd (with_disable_datasets_caching body w) =
             emit Exit_disable_datasets_caching (w1\<lparr>caching_enabled := caching_enabled w\<rparr>)"
    using bw by (simp add: with_disable_datasets_caching_def w0_def Let_def)
  show "\<exists>evs. trace (snd (with_disable_datasets_caching body w)) = trace w @ evs"
    using s t1 by (simp add: emit_def w0_def)
  show "caching_enabled (snd (with_disable_datasets_caching body w)) = caching_enabled w"
    using s by (simp add: emit_def)
qed

lemma steady_register [simp]: "steady (register_templates E c)"
  by (simp add: register_templates_def)

lemma steady_fill [simp]: "steady (fill_dataset_prepared_path E c)"
  by (simp add: fill_dataset_prepared_path_def)

lemma steady_materialize [simp]: "steady (materialize E c a)"
  unfolding materialize_def
  by (rule steady_with) (simp add: steady_def call_def emit_def split: option.splits)

lemma steady_convert [simp]: "steady (convert_csv E c)"
  by (simp add: convert_csv_def Let_def split: option.splits list.splits)

lemma steady_probe [simp]: "steady (probe_weights E c a)"
  by (simp add: probe_weights_def Let_def)

lemma steady_report [simp]: "steady (report_success c)"
  by (simp add: report_success_def)

lemma steady_do_cli [simp]: "steady (do_cli E config kw)"
  by (simp add: do_cli_def)

lemma new_events_return [simp]: "new_events (return x) w = []"
  by (simp add: new_events_def return_def)

lemma new_events_raise [simp]: "new_events (raise x) w = []"
  by (simp add: new_events_def raise_def)

lemma new_events_call [simp]: "new_events (call e out) w = [e]"
  by (simp add: new_events_def call_def emit_def split: option.splits)

lemma new_events_call_value [simp]: "new_events (call_value e out) w = [e]"
  by (simp add: new_events_def call_value_def emit_def)

lemma new_events_log_info [simp]: "new_events (log_info s) w = [Log_info s]"
  by (simp add: log_info_def)

lemma new_events_log_warning [simp]: "new_events (log_warning s) w = [Log_warning s]"
  by (simp add: log_warning_def)

lemma new_events_try [simp]:
  "new_events (try_except_Exception_pass body) w = new_events body w"
proof -
  have "snd (try_except_Exception_pass body w) = snd (body w)"
    by (simp add: try_except_Exception_pass_def split: prod.splits sum.splits)
  then show ?thesis by (simp add: new_events_def)
qed

lemma new_events_seq:
  assumes "steady m" "\<And>x. steady (f x)"
  shows "new_events (and_then m f) w =
           new_events m w @
           (case fst (m w) of Inl e \<Rightarrow> [] | Inr x \<Rightarrow> new_events (f x) (snd (m w)))"
  by (simp add: new_events_and_then [OF assms] split: prod.splits sum.splits)

lemma fst_and_then:
  "fst (and_then m f w) = (case fst (m w) of Inl e \<Rightarrow> Inl e | Inr x \<Rightarrow> fst (f x (snd (m w))))"
  by (simp add: and_then_def split: prod.splits sum.splits)

lemma fst_call [simp]: "fst (call e out w) = (case out of None \<Rightarrow> Inr () | Some x \<Rightarrow> Inl x)"
  by (simp add: call_def split: option.splits)

lemma snd_call [simp]: "snd (call e out w) = emit e w"
  by (simp add: call_def split: option.splits)

lemma fst_call_value [simp]: "fst (call_value e out w) = out"
  by (simp add: call_value_def)

lemma snd_call_value [simp]: "snd (call_value e out w) = emit e w"
  by (simp add: call_value_def)

lemma fst_return [simp]: "fst (return x w) = Inr x"
  by (simp add: return_def)

lemma snd_return [simp]: "snd (return x w) = w"
  by (simp add: return_def)

lemma fst_raise [simp]: "fst (raise x w) = Inl x"
  by (simp add: raise_def)

lemma snd_raise [simp]: "snd (raise x w) = w"
  by (simp add: raise_def)

lemma fst_log_info [simp]: "fst (log_info s w) = Inr ()"
  by (simp add: log_info_def)

lemma fst_log_warning [simp]: "fst (log_warning s w) = Inr ()"
  by (simp add: log_warning_def)

lemma new_events_register:
  "new_events (register_templates E c) w =
     (if chat_template c = Some ''chatml'' then
        (if truthy (default_system_message c)
         then [Log_info (''ChatML set. Adding default system message: ''
                           @ py_format (default_system_message c)),
               Register_chatml_template (default_system_message c)]
         else [Register_chatml_template None])
      else if chat_template c = Some ''llama3'' then
        (if truthy (default_system_message c)
         then [Log_info (''LLaMA-3 set. Adding default system message: ''
                           @ py_format (default_system_message c)),
               Register_llama3_template (default_system_message c)]
         else [Register_llama3_template None])
      else [])"
  by (simp add: register_templates_def new_events_seq)

lemma new_events_fill:
  "new_events (fill_dataset_prepared_path E c) w =
     (if truthy (dataset_prepared_path c) then [] else [Log_warning (default_path_msg E)])"
  by (simp add: fill_dataset_prepared_path_def new_events_seq)

lemma fill_eq:
  "fill_dataset_prepared_path E c w =
     (if truthy (dataset_prepared_path c) then (Inr c, w)
      else (Inr (c\<lparr>dataset_prepared_path := Some (DEFAULT_DATASET_PREPARED_PATH E)\<rparr>),
            emit (Log_warning (default_path_msg E)) w))"
  by (simp add: fill_dataset_prepared_path_def and_then_def return_def log_warning_def call_def)

lemma materialize_eq:
  "materialize E c a w =
     ((case (if truthy (rl c) then load_rl_datasets E c a else load_datasets E c a) of
         None \<Rightarrow> Inr () | Some e \<Rightarrow> Inl e),
      w\<lparr>trace := trace w @
           [Enter_disable_datasets_caching,
            if truthy (rl c) then Load_rl_datasets c a False else Load_datasets c a False,
            Exit_disable_datasets_caching]\<rparr>)"
  by (simp add: materialize_def with_disable_datasets_caching_def call_def emit_def Let_def
      split: option.splits)

lemma new_events_materialize:
  "new_events (materialize E c a) w =
     [Enter_disable_datasets_caching,
      if truthy (rl c) then Load_rl_datasets c a False else Load_datasets c a False,
      Exit_disable_datasets_caching]"
  by (simp add: new_events_def materialize_eq)

lemma new_events_probe:
  "new_events (probe_weights E c a) w = (if download a then [From_pretrained (base_model c)] else [])"
  by (simp add: probe_weights_def Let_def)

lemma new_events_report: "new_events (report_success c) w = [Log_info (success_msg c)]"
  by (simp add: report_success_def)

lemma new_events_convert:
  "new_events (convert_csv E c) w =
     (case dataset_prepared_path c of
        None \<Rightarrow> []
      | Some prepared \<Rightarrow>
          if prepared = [] then []
          else (case datasets c of
                  None \<Rightarrow> []
                | Some [] \<Rightarrow> []
                | Some (d # _) \<Rightarrow>
                    if endswith (path d) ''.csv''
                    then [Log_info (''Converting '' @ path d @ '' to ''
                                     @ jsonl_file_of prepared (path d) @ ''...''),
                          Convert (path d) (jsonl_file_of prepared (path d))]
                    else []))"
  by (simp add: convert_csv_def Let_def new_events_seq
      split: option.splits list.splits)

lemma no_probe_register: "filter is_probe (new_events (register_templates E c) w) = []"
  by (simp add: new_events_register)

lemma no_probe_fill: "filter is_probe (new_events (fill_dataset_prepared_path E c) w) = []"
  by (simp add: new_events_fill)

lemma no_probe_materialize: "filter is_probe (new_events (materialize E c a) w) = []"
  by (simp add: new_events_materialize)

lemma no_probe_convert: "filter is_probe (new_events (convert_csv E c) w) = []"
  by (simp add: new_events_convert split: option.splits list.splits)

lemma no_probe_report: "filter is_probe (new_events (report_success c) w) = []"
  by (simp add: new_events_report)

lemma and_then_assoc:
  "and_then (and_then m f) g = and_then m (\<lambda>x. and_then (f x) g)"
  by (rule ext) (simp add: and_then_def split: prod.splits sum.splits)

lemma and_then_return: "and_then (return x) f = f x"
  by (rule ext) (simp add: and_then_def return_def)

lemma do_cli_split:
  "do_cli E config kw =
     and_then (before_probe E config kw) (\<lambda>(c3, a).
     and_then (probe_weights E c3 a) (\<lambda>_.
     and_then (report_success c3) (\<lambda>_.
     return c3)))"
  by (simp add: do_cli_def before_probe_def and_then_assoc and_then_return)

lemma probe_weights_eq:
  "probe_weights E c a w =
     (if download a then
        (case from_pretrained E (base_model c) of
           None \<Rightarrow> (Inr (), emit (From_pretrained (base_model c)) w)
         | Some x \<Rightarrow>
             if isinstance_Exception x
             then (Inr (), emit (From_pretrained (base_model c)) w)
             else (Inl x, emit (From_pretrained (base_model c)) w))
      else (Inr (), w))"
  by (simp add: probe_weights_def try_except_Exception_pass_def call_def return_def Let_def
      split: option.splits)

lemma report_success_eq: "report_success c w = (Inr (), emit (Log_info (success_msg c)) w)"
  by (simp add: report_success_def log_info_def call_def)

lemma fst_fill [simp]:
  "fst (fill_dataset_prepared_path E c w) =
     Inr (if truthy (dataset_prepared_path c) then c
          else c\<lparr>dataset_prepared_path := Some (DEFAULT_DATASET_PREPARED_PATH E)\<rparr>)"
  by (simp add: fill_eq)

lemma fst_materialize:
  "fst (materialize E c a w) =
     (case (if truthy (rl c) then load_rl_datasets E c a else load_datasets E c a) of
        None \<Rightarrow> Inr () | Some e \<Rightarrow> Inl e)"
  by (simp add: materialize_eq)

lemma fst_report [simp]: "fst (report_success c w) = Inr ()"
  by (simp add: report_success_eq)

subsection \<open>The concrete run, evaluated\<close>

text \<open>Each step of the example is evaluated on its own, then the steps are put together.\<close>

lemma endswith_example: "endswith ''data/train.csv'' ''.csv''"
  by (simp add: endswith_def)

lemma jsonl_file_of_example:
  "jsonl_file_of ''last_run_prepared'' ''data/train.csv'' = ''last_run_prepared/data/train.jsonl''"
  by (simp add: jsonl_file_of_def rsplit_dot_head_def)

lemma register_example:
  "register_templates (env_example cfg_example dl ld probe) (cfg_example\<lparr>is_preprocess := True\<rparr>) w
     = (Inr (), emit (Register_chatml_template None) w)"
  by (simp add: register_templates_def cfg_example_def env_example_def call_def)

lemma fill_example:
  "fill_dataset_prepared_path (env_example cfg_example dl ld probe) (cfg_example\<lparr>is_preprocess := True\<rparr>) w
     = (Inr cfg_filled, emit (Log_warning (Fore_RED @ ''preprocess CLI called without dataset_prepared_path set, using default path: last_run_prepared'' @ Fore_RESET)) w)"
  by (simp add: fill_eq cfg_filled_def cfg_example_def env_example_def default_path_msg_def)

lemma materialize_example:
  "materialize (env_example cfg_example dl None probe) cfg_filled a w
     = (Inr (), w\<lparr>trace := trace w @ [Enter_disable_datasets_caching, Load_datasets cfg_filled a False, Exit_disable_datasets_caching]\<rparr>)"
  by (simp add: materialize_eq cfg_filled_def cfg_example_def env_example_def)

lemma convert_example:
  "convert_csv (env_example cfg_example dl None probe) cfg_filled w
     = (Inr cfg_converted,
        w\<lparr>trace := trace w @ [Log_info ''Converting data/train.csv to last_run_prepared/data/train.jsonl...'',
            Convert ''data/train.csv'' ''last_run_prepared/data/train.jsonl'']\<rparr>)"
  by (simp add: convert_csv_def cfg_converted_def cfg_filled_def cfg_example_def env_example_def
      endswith_example jsonl_file_of_example and_then_def log_info_def call_def return_def emit_def
      Let_def)

lemma before_probe_example:
  "before_probe (env_example cfg_example dl None probe) ''examples/'' [] world_example =
     (Inr (cfg_converted, \<lparr>download = dl\<rparr>),
      \<lparr>caching_enabled = True, trace = trace_before_probe dl\<rparr>)"
proof -
  have e: "load_cfg (env_example cfg_example dl None probe) = (\<lambda>_ _. Inr cfg_example)"
    "print_axolotl_text_art (env_example cfg_example dl None probe) = None"
    "check_accelerate_default_config (env_example cfg_example dl None probe) = None"
    "check_user_token (env_example cfg_example dl None probe) = None"
    "parse_args_into_dataclasses (env_example cfg_example dl None probe) = Inr \<lparr>download = dl\<rparr>"
    by (simp_all add: env_example_def)
  show ?thesis
    unfolding before_probe_def
    by (simp add: e and_then_def call_def call_value_def return_def emit_def
        register_example fill_example materialize_example convert_example
        world_example_def trace_before_probe_def)
qed


lemma do_cli_example:
  "do_cli (env_example cfg_example False None probe) ''examples/'' [] world_example =
     (Inr cfg_converted,
      \<lparr>caching_enabled = True,
       trace = trace_before_probe False @ [Log_info (success_msg cfg_converted)]\<rparr>)"
  by (simp add: do_cli_split and_then_def before_probe_example probe_weights_eq
      report_success_eq return_def emit_def)

lemma new_events_do_cli_example:
  "new_events (do_cli (env_example cfg_example False None probe) ''examples/'' []) world_example =
     trace_before_probe False @ [Log_info (success_msg cfg_converted)]"
proof -
  have "trace world_example = []"
    by (simp add: world_example_def)
  then show ?thesis
    by (simp add: new_events_def do_cli_example)
qed

subsection \<open>Results and events of the conversion step and of the whole run\<close>

lemma fst_convert_csv:
  "fst (convert_csv E c w) =
     (case dataset_prepared_path c of
        None \<Rightarrow> Inr c
      | Some prepared \<Rightarrow>
          if prepared = [] then Inr c
          else (case datasets c of
                  None \<Rightarrow> Inl (Exception ''TypeError'')
                | Some [] \<Rightarrow> Inl (Exception ''IndexError'')
                | Some (d # _) \<Rightarrow>
                    if endswith (path d) ''.csv''
                    then (case convert E (path d) (jsonl_file_of prepared (path d)) of
                            None \<Rightarrow> Inr (c\<lparr>dataset_file := Some (jsonl_file_of prepared (path d))\<rparr>)
                          | Some e \<Rightarrow> Inl e)
                    else Inr c))"
  by (simp add: convert_csv_def Let_def fst_and_then split: option.splits list.splits)

lemma convert_csv_not_csv:
  assumes "datasets c = Some (d # ds)" "\<not> endswith (path d) ''.csv''"
  shows "convert_csv E c w = (Inr c, w)"
  using assms by (simp add: convert_csv_def return_def split: option.splits)

lemma converts_register: "filter is_convert (new_events (register_templates E c) w) = []"
  by (simp add: new_events_register)

lemma converts_fill: "filter is_convert (new_events (fill_dataset_prepared_path E c) w) = []"
  by (simp add: new_events_fill)

lemma converts_materialize: "filter is_convert (new_events (materialize E c a) w) = []"
  by (simp add: new_events_materialize)

lemma converts_probe: "filter is_convert (new_events (probe_weights E c a) w) = []"
  by (simp add: new_events_probe)

lemma converts_report: "filter is_convert (new_events (report_success c) w) = []"
  by (simp add: new_events_report)

lemma converts_convert:
  "filter is_convert (new_events (convert_csv E c) w) =
     (case dataset_prepared_path c of
        None \<Rightarrow> []
      | Some prepared \<Rightarrow>
          if prepared = [] then []
          else (case datasets c of
                  None \<Rightarrow> []
                | Some [] \<Rightarrow> []
                | Some (d # _) \<Rightarrow>
                    if endswith (path d) ''.csv''
                    then [Convert (path d) (jsonl_file_of prepared (path d))]
                    else []))"
  by (simp add: new_events_convert split: option.splits list.splits)















lemma converts_do_cli_not_csv:
  assumes "load_cfg E config kw = Inr c" "datasets c = Some (d # ds)"
    "\<not> endswith (path d) ''.csv''"
  shows "filter is_convert (new_events (do_cli E config kw) w) = []"
  using assms unfolding do_cli_def
  by (simp add: new_events_seq converts_register converts_fill converts_materialize
      converts_convert converts_probe converts_report split: sum.splits option.splits)


lemma do_cli_InrD:
  assumes "fst (do_cli E config kw w) = Inr c'"
  shows "\<exists>c0 w'. load_cfg E config kw = Inr c0 \<and>
           fst (convert_csv E
                  (if truthy (dataset_prepared_path c0) then c0\<lparr>is_preprocess := True\<rparr>
                   else c0\<lparr>is_preprocess := True,
                          dataset_prepared_path := Some (DEFAULT_DATASET_PREPARED_PATH E)\<rparr>) w')
             = Inr c'"
  using assms unfolding do_cli_def
  by (auto simp: fst_and_then split: sum.splits option.splits if_splits)

subsection \<open>Paths\<close>

lemma endswith_csvD:
  assumes "endswith p ''.csv''"
  shows "p = take (length p - 4) p @ ''.csv''"
proof -
  from assms have "drop (length p - 4) p = ''.csv''"
    by (simp add: endswith_def numeral_eq_Suc)
  then have "take (length p - 4) p @ ''.csv'' = take (length p - 4) p @ drop (length p - 4) p"
    by simp
  then show ?thesis by simp
qed

lemma rsplit_dot_head_csv: "rsplit_dot_head (q @ ''.csv'') = q"
  by (simp add: rsplit_dot_head_def)

lemma basename_csv: "basename (q @ ''.csv'') = basename q @ ''.csv''"
  by (simp add: basename_def)

lemma basename_id: "basename q = q \<longleftrightarrow> CHR ''/'' \<notin> set q"
proof -
  have "basename q = q \<longleftrightarrow> takeWhile (\<lambda>c. c \<noteq> CHR ''/'') (rev q) = rev q"
    unfolding basename_def by (metis rev_rev_ident)
  also have "\<dots> \<longleftrightarrow> CHR ''/'' \<notin> set q"
    by (auto simp: takeWhile_eq_all_conv)
  finally show ?thesis .
qed

lemma jsonl_file_of_csv:
  assumes "endswith p ''.csv''"
  shows "jsonl_file_of prepared p = prepared @ ''/'' @ take (length p - 4) p @ ''.jsonl''"
proof -
  have "rsplit_dot_head p = take (length p - 4) p"
    using rsplit_dot_head_csv [of "take (length p - 4) p"] endswith_csvD [OF assms] by simp
  then show ?thesis by (simp add: jsonl_file_of_def)
qed

lemma spec_artifact_csv:
  assumes "endswith p ''.csv''"
  shows "spec_artifact prepared p = prepared @ ''/'' @ basename (take (length p - 4) p) @ ''.jsonl''"
proof -
  have "basename p = basename (take (length p - 4) p) @ ''.csv''"
    using basename_csv [of "take (length p - 4) p"] endswith_csvD [OF assms] by simp
  then have "spec_stem p = basename (take (length p - 4) p)"
    by (simp add: spec_stem_def rsplit_dot_head_csv)
  then show ?thesis by (simp add: spec_artifact_def)
qed

lemma slash_in_csv:
  assumes "endswith p ''.csv''"
  shows "CHR ''/'' \<in> set (take (length p - 4) p) \<longleftrightarrow> CHR ''/'' \<in> set p"
proof -
  have "set p = set (take (length p - 4) p) \<union> set ''.csv''"
    using endswith_csvD [OF assms] by (metis set_append)
  then show ?thesis by simp
qed

subsection \<open>A run that returns\<close>

text \<open>
  When \<^verbatim>\<open>do_cli\<close> returns, every step has returned, and the events of the run are the
  events of the steps in the order of the source.
\<close>

lemma and_then_returns:
  assumes "fst (and_then m f w) = Inr y" and "steady m" and "\<And>x. steady (f x)"
  obtains x where "fst (m w) = Inr x" and "fst (f x (snd (m w))) = Inr y"
    and "new_events (and_then m f) w = new_events m w @ new_events (f x) (snd (m w))"
proof (cases "fst (m w)")
  case (Inl e)
  with assms(1) show ?thesis by (simp add: fst_and_then)
next
  case (Inr x)
  with assms(1) have "fst (f x (snd (m w))) = Inr y"
    by (simp add: fst_and_then)
  moreover have "new_events (and_then m f) w = new_events m w @ new_events (f x) (snd (m w))"
    using Inr by (simp add: new_events_seq [OF assms(2,3)])
  ultimately show ?thesis using Inr that by blast
qed

lemma do_cli_returns:
  assumes "fst (do_cli E config kw w) = Inr c'"
  shows "\<exists>c0 a c2 w1 w2 w3 w4 w5.
           load_cfg E config kw = Inr c0 \<and>
           parse_args_into_dataclasses E = Inr a \<and>
           fst (fill_dataset_prepared_path E (c0\<lparr>is_preprocess := True\<rparr>) w2) = Inr c2 \<and>
           fst (convert_csv E c2 w4) = Inr c' \<and>
           new_events (do_cli E config kw) w =
             [Print_axolotl_text_art, Load_cfg config kw, Check_accelerate_default_config,
              Check_user_token, Parse_args_into_dataclasses]
             @ new_events (register_templates E (c0\<lparr>is_preprocess := True\<rparr>)) w1
             @ new_events (fill_dataset_prepared_path E (c0\<lparr>is_preprocess := True\<rparr>)) w2
             @ new_events (materialize E c2 a) w3
             @ new_events (convert_csv E c2) w4
             @ new_events (probe_weights E c' a) w5
             @ [Log_info (success_msg c')]"
  apply (insert assms)
  apply (unfold do_cli_def)
  apply (erule and_then_returns, simp, simp)+
  apply (simp del: fst_fill add: new_events_report)
  apply blast
  done

lemma filled_truthy:
  assumes "fst (fill_dataset_prepared_path E c w) = Inr c2" "DEFAULT_DATASET_PREPARED_PATH E \<noteq> []"
  shows "truthy (dataset_prepared_path c2)"
  using assms by (auto split: if_splits)

lemma filled_keeps:
  assumes "fst (fill_dataset_prepared_path E c w) = Inr c2"
  shows "datasets c2 = datasets c" "dataset_file c2 = dataset_file c"
    "chat_template c2 = chat_template c"
  using assms by (auto split: if_splits)

lemma convert_csv_csv:
  assumes "fst (convert_csv E c w) = Inr c'" "truthy (dataset_prepared_path c)"
    "datasets c = Some (d # ds)" "endswith (path d) ''.csv''"
  shows "c' = c\<lparr>dataset_file :=
                  Some (jsonl_file_of (py_format (dataset_prepared_path c)) (path d))\<rparr>"
    and "filter is_convert (new_events (convert_csv E c) w') =
           [Convert (path d) (jsonl_file_of (py_format (dataset_prepared_path c)) (path d))]"
  using assms
  by (auto simp: fst_convert_csv converts_convert split: option.splits if_splits)

lemma converts_do_cli_csv:
  assumes "load_cfg E config kw = Inr c0" "datasets c0 = Some (d # ds)"
    "endswith (path d) ''.csv''" "DEFAULT_DATASET_PREPARED_PATH E \<noteq> []"
    "fst (do_cli E config kw w) = Inr c'"
  shows "dataset_file c' =
           Some (jsonl_file_of (py_format (dataset_prepared_path c')) (path d))"
    and "datasets c' = datasets c0"
    and "filter is_convert (new_events (do_cli E config kw) w) =
           [Convert (path d) (jsonl_file_of (py_format (dataset_prepared_path c')) (path d))]"
proof -
  from do_cli_returns [OF assms(5)] assms(1) obtain a c2 w1 w2 w3 w4 w5 where
    f: "fst (fill_dataset_prepared_path E (c0\<lparr>is_preprocess := True\<rparr>) w2) = Inr c2"
    and c: "fst (convert_csv E c2 w4) = Inr c'"
    and n: "new_events (do_cli E config kw) w =
             [Print_axolotl_text_art, Load_cfg config kw, Check_accelerate_default_config,
              Check_user_token, Parse_args_into_dataclasses]
             @ new_events (register_templates E (c0\<lparr>is_preprocess := True\<rparr>)) w1
             @ new_events (fill_dataset_prepared_path E (c0\<lparr>is_preprocess := True\<rparr>)) w2
             @ new_events (materialize E c2 a) w3
             @ new_events (convert_csv E c2) w4
             @ new_events (probe_weights E c' a) w5
             @ [Log_info (success_msg c')]"
    by auto
  have t: "truthy (dataset_prepared_path c2)"
    using f assms(4) by (rule filled_truthy)
  have d2: "datasets c2 = Some (d # ds)"
    using filled_keeps(1) [OF f] assms(2) by simp
  have c': "c' = c2\<lparr>dataset_file :=
                    Some (jsonl_file_of (py_format (dataset_prepared_path c2)) (path d))\<rparr>"
    using c t d2 assms(3) by (rule convert_csv_csv(1))
  have e: "filter is_convert (new_events (convert_csv E c2) w4) =
             [Convert (path d) (jsonl_file_of (py_format (dataset_prepared_path c2)) (path d))]"
    using c t d2 assms(3) by (rule convert_csv_csv(2))
  have p: "dataset_prepared_path c' = dataset_prepared_path c2"
    using c' by simp
  show "dataset_file c' =
          Some (jsonl_file_of (py_format (dataset_prepared_path c')) (path d))"
    using c' by simp
  show "datasets c' = datasets c0"
    using c' d2 assms(2) by simp
  show "filter is_convert (new_events (do_cli E config kw) w) =
          [Convert (path d) (jsonl_file_of (py_format (dataset_prepared_path c')) (path d))]"
    unfolding n
    by (simp add: converts_register converts_fill converts_materialize converts_probe e p)
qed

subsection \<open>The example with a loader that raises\<close>

lemma materialize_raise_example:
  "materialize (env_example cfg_example dl (Some x) probe) cfg_filled a w
     = (Inl x, w\<lparr>trace := trace w @ [Enter_disable_datasets_caching,
                   Load_datasets cfg_filled a False, Exit_disable_datasets_caching]\<rparr>)"
  by (simp add: materialize_eq cfg_filled_def cfg_example_def env_example_def)

lemma do_cli_raise_example:
  "do_cli (env_example cfg_example dl (Some x) probe) ''examples/'' [] world_example =
     (Inl x, \<lparr>caching_enabled = True, trace = take 10 (trace_before_probe dl)\<rparr>)"
proof -
  have e: "load_cfg (env_example cfg_example dl (Some x) probe) = (\<lambda>_ _. Inr cfg_example)"
    "print_axolotl_text_art (env_example cfg_example dl (Some x) probe) = None"
    "check_accelerate_default_config (env_example cfg_example dl (Some x) probe) = None"
    "check_user_token (env_example cfg_example dl (Some x) probe) = None"
    "parse_args_into_dataclasses (env_example cfg_example dl (Some x) probe) = Inr \<lparr>download = dl\<rparr>"
    by (simp_all add: env_example_def)
  show ?thesis
    unfolding do_cli_def
    by (simp add: e and_then_def call_def call_value_def return_def emit_def
        register_example fill_example materialize_raise_example
        world_example_def trace_before_probe_def)
qed

subsection \<open>Materialization within a run\<close>

lemma scope_register:
  "filter in_materialization (new_events (register_templates E c) w) = []"
  by (simp add: new_events_register)

lemma scope_fill:
  "filter in_materialization (new_events (fill_dataset_prepared_path E c) w) = []"
  by (simp add: new_events_fill)

lemma scope_materialize:
  "filter in_materialization (new_events (materialize E c a) w) =
     [Enter_disable_datasets_caching,
      if truthy (rl c) then Load_rl_datasets c a False else Load_datasets c a False,
      Exit_disable_datasets_caching]"
  by (simp add: new_events_materialize)

lemma scope_convert:
  "filter in_materialization (new_events (convert_csv E c) w) = []"
  by (simp add: new_events_convert split: option.splits list.splits)

lemma scope_probe:
  "filter in_materialization (new_events (probe_weights E c a) w) = []"
  by (simp add: new_events_probe)

lemma scope_report:
  "filter in_materialization (new_events (report_success c) w) = []"
  by (simp add: new_events_report)

lemma scope_do_cli:
  assumes "load_cfg E config kw = Inr c0" "parse_args_into_dataclasses E = Inr a"
  shows "filter in_materialization (new_events (do_cli E config kw) w) = []
   \<or> filter in_materialization (new_events (do_cli E config kw) w) =
          [Enter_disable_datasets_caching,
           if truthy (rl c0)
           then Load_rl_datasets
                  (if truthy (dataset_prepared_path c0) then c0\<lparr>is_preprocess := True\<rparr>
                   else c0\<lparr>is_preprocess := True,
                          dataset_prepared_path := Some (DEFAULT_DATASET_PREPARED_PATH E)\<rparr>)
                  a False
           else Load_datasets
                  (if truthy (dataset_prepared_path c0) then c0\<lparr>is_preprocess := True\<rparr>
                   else c0\<lparr>is_preprocess := True,
                          dataset_prepared_path := Some (DEFAULT_DATASET_PREPARED_PATH E)\<rparr>)
                  a False,
           Exit_disable_datasets_caching]"
  using assms unfolding do_cli_def
  by (simp add: new_events_seq scope_register scope_fill scope_materialize scope_convert
      scope_probe scope_report split: sum.splits option.splits)

lemma scope_do_cli_no_cfg:
  assumes "load_cfg E config kw = Inl e"
  shows "filter in_materialization (new_events (do_cli E config kw) w) = []"
  using assms unfolding do_cli_def
  by (simp add: new_events_seq split: sum.splits option.splits)

lemma scope_do_cli_no_args:
  assumes "parse_args_into_dataclasses E = Inl e"
  shows "filter in_materialization (new_events (do_cli E config kw) w) = []"
  using assms unfolding do_cli_def
  by (simp add: new_events_seq split: sum.splits option.splits)

lemma scope_do_cli_returns:
  assumes "fst (do_cli E config kw w) = Inr c'"
  shows "filter in_materialization (new_events (do_cli E config kw) w) \<noteq> []"
proof -
  from do_cli_returns [OF assms] obtain c0 a c2 w1 w2 w3 w4 w5 where
    n: "new_events (do_cli E config kw) w =
             [Print_axolotl_text_art, Load_cfg config kw, Check_accelerate_default_config,
              Check_user_token, Parse_args_into_dataclasses]
             @ new_events (register_templates E (c0\<lparr>is_preprocess := True\<rparr>)) w1
             @ new_events (fill_dataset_prepared_path E (c0\<lparr>is_preprocess := True\<rparr>)) w2
             @ new_events (materialize E c2 a) w3
             @ new_events (convert_csv E c2) w4
             @ new_events (probe_weights E c' a) w5
             @ [Log_info (success_msg c')]"
    by blast
  show ?thesis
    unfolding n by (simp add: scope_materialize)
qed

lemma seen_caching_scope:
  "List.map_filter seen_caching (filter in_materialization xs) = List.map_filter seen_caching xs"
proof (induction xs)
  case Nil
  then show ?case by simp
next
  case (Cons e xs)
  then show ?case by (cases e) (simp_all add: map_filter_simps)
qed

lemma seen_caching_do_cli:
  "List.map_filter seen_caching (new_events (do_cli E config kw) w) = []
   \<or> List.map_filter seen_caching (new_events (do_cli E config kw) w) = [False]"
proof (cases "load_cfg E config kw")
  case (Inl e)
  from scope_do_cli_no_cfg [OF this, of w] seen_caching_scope [of "new_events (do_cli E config kw) w"]
  show ?thesis by (simp add: map_filter_simps)
next
  case c: (Inr c0)
  show ?thesis
  proof (cases "parse_args_into_dataclasses E")
    case (Inl e)
    from scope_do_cli_no_args [OF this, of config kw w]
      seen_caching_scope [of "new_events (do_cli E config kw) w"]
    show ?thesis by (simp add: map_filter_simps)
  next
    case (Inr a)
    from scope_do_cli [OF c Inr, of w] seen_caching_scope [of "new_events (do_cli E config kw) w"]
    show ?thesis by (auto simp: map_filter_simps split: if_splits)
  qed
qed

lemma seen_caching_do_cli_returns:
  assumes "fst (do_cli E config kw w) = Inr c'"
  shows "List.map_filter seen_caching (new_events (do_cli E config kw) w) = [False]"
proof -
  from do_cli_returns [OF assms] obtain c0 a where
    c: "load_cfg E config kw = Inr c0" and a: "parse_args_into_dataclasses E = Inr a"
    by blast
  from scope_do_cli [OF c a, of w] scope_do_cli_returns [OF assms]
    seen_caching_scope [of "new_events (do_cli E config kw) w"]
  show ?thesis by (auto simp: map_filter_simps split: if_splits)
qed

subsection \<open>Registration within a run\<close>




subsection \<open>The path named by the report\<close>

lemma filled_path_Some:
  assumes "fst (fill_dataset_prepared_path E c w) = Inr c2"
  shows "\<exists>p. dataset_prepared_path c2 = Some p"
  using assms by (cases "dataset_prepared_path c") (auto split: if_splits)

lemma convert_csv_keeps_path:
  assumes "fst (convert_csv E c w) = Inr c'"
  shows "dataset_prepared_path c' = dataset_prepared_path c"
  using assms by (auto simp: fst_convert_csv split: option.splits list.splits if_splits)

lemma before_probe_path:
  assumes "fst (before_probe E config kw w) = Inr (c, a)"
  shows "\<exists>p. dataset_prepared_path c = Some p"
proof -
  have "\<exists>c1 c2 w2 w4. fst (fill_dataset_prepared_path E c1 w2) = Inr c2
          \<and> fst (convert_csv E c2 w4) = Inr c"
    apply (insert assms)
    apply (unfold before_probe_def)
    apply (erule and_then_returns, simp, simp)+
    apply (simp del: fst_fill)
    apply blast
    done
  then obtain c1 c2 w2 w4 where
    f: "fst (fill_dataset_prepared_path E c1 w2) = Inr c2"
    and k: "fst (convert_csv E c2 w4) = Inr c"
    by blast
  from filled_path_Some [OF f] convert_csv_keeps_path [OF k] show ?thesis
    by simp
qed

section \<open>The claims\<close>

text \<open>
  C9. In a run whose command-line arguments have \<^verbatim>\<open>download\<close> false, the probe of the
  weights is never invoked: the trace of the run has no call of \<^verbatim>\<open>from_pretrained\<close> at
  all, whatever the other collaborators do.
\<close>

theorem probe_never_invoked_without_download:
  assumes "parse_args_into_dataclasses E = Inr a" "\<not> download a"
  shows "filter is_probe (new_events (do_cli E config kw) w) = []"
  using assms unfolding do_cli_def
  by (simp add: new_events_seq no_probe_register no_probe_fill no_probe_materialize
      no_probe_convert no_probe_report new_events_probe split: sum.splits option.splits)

theorem probe_never_invoked_without_download_witness:
  "parse_args_into_dataclasses (env_example cfg_example False None None) = Inr \<lparr>download = False\<rparr>
   \<and> \<not> download \<lparr>download = False\<rparr>
   \<and> filter is_probe
         (new_events (do_cli (env_example cfg_example False None None) ''examples/'' [])
            world_example) = []"
  using probe_never_invoked_without_download
    [of "env_example cfg_example False None None" "\<lparr>download = False\<rparr>" "''examples/''" "[]"
        world_example]
  by (simp add: env_example_def)

text \<open>
  C3. In a run with \<^verbatim>\<open>download\<close> true, an error that \<^verbatim>\<open>from_pretrained\<close> raises is
  suppressed. When the steps before the probe have completed with the configuration
  \<open>c\<close>, and the probe raises an exception of class \<^verbatim>\<open>Exception\<close>, the run returns
  normally: the probe has been invoked, nothing escapes, and the last record of the log
  is the report of success, whose text contains the value \<open>p\<close> of
  \<^verbatim>\<open>dataset_prepared_path\<close> in \<open>c\<close>.
\<close>

theorem probe_error_suppressed:
  assumes "before_probe E config kw w = (Inr (c, a), w1)"
    and "download a"
    and "from_pretrained E (base_model c) = Some (Exception n)"
  shows "\<exists>p. dataset_prepared_path c = Some p
           \<and> do_cli E config kw w =
               (Inr c,
                w1\<lparr>trace := trace w1 @
                   [From_pretrained (base_model c),
                    Log_info (CHR 0x1B # ''[32mSuccess! Preprocessed data path: ''
                              @ ''`dataset_prepared_path: '' @ p @ ''`'' @ CHR 0x1B # ''[39m'')]\<rparr>)"
proof -
  from assms(1) have "fst (before_probe E config kw w) = Inr (c, a)"
    by simp
  then obtain p where p: "dataset_prepared_path c = Some p"
    using before_probe_path by blast
  have "do_cli E config kw w =
          (Inr c,
           w1\<lparr>trace := trace w1 @
              [From_pretrained (base_model c),
               Log_info (CHR 0x1B # ''[32mSuccess! Preprocessed data path: ''
                         @ ''`dataset_prepared_path: '' @ p @ ''`'' @ CHR 0x1B # ''[39m'')]\<rparr>)"
    using assms p
    by (simp add: do_cli_split and_then_def probe_weights_eq report_success_eq return_def
        emit_def success_msg_def Fore_GREEN_def Fore_RESET_def)
  with p show ?thesis by blast
qed

theorem probe_error_suppressed_witness:
  "before_probe (env_example cfg_example True None (Some (Exception ''OSError''))) ''examples/'' []
       world_example =
     (Inr (cfg_converted, \<lparr>download = True\<rparr>),
      \<lparr>caching_enabled = True, trace = trace_before_probe True\<rparr>)
   \<and> download \<lparr>download = True\<rparr>
   \<and> from_pretrained (env_example cfg_example True None (Some (Exception ''OSError'')))
         (base_model cfg_converted) = Some (Exception ''OSError'')
   \<and> dataset_prepared_path cfg_converted = Some ''last_run_prepared''
   \<and> do_cli (env_example cfg_example True None (Some (Exception ''OSError''))) ''examples/'' []
         world_example =
       (Inr cfg_converted,
        \<lparr>caching_enabled = True,
         trace = trace_before_probe True @
           [From_pretrained (Some ''org/unreachable-model''),
            Log_info (CHR 0x1B # ''[32mSuccess! Preprocessed data path: ''
                      @ ''`dataset_prepared_path: last_run_prepared`'' @ CHR 0x1B # ''[39m'')]\<rparr>)"
proof -
  let ?E = "env_example cfg_example True None (Some (Exception ''OSError''))"
  have h1: "before_probe ?E ''examples/'' [] world_example =
     (Inr (cfg_converted, \<lparr>download = True\<rparr>),
      \<lparr>caching_enabled = True, trace = trace_before_probe True\<rparr>)"
    by (rule before_probe_example)
  have h2: "download \<lparr>download = True\<rparr>" by simp
  have h3: "from_pretrained ?E (base_model cfg_converted) = Some (Exception ''OSError'')"
    by (simp add: env_example_def)
  have b: "base_model cfg_converted = Some ''org/unreachable-model''"
    by (simp add: cfg_converted_def cfg_filled_def cfg_example_def)
  have p: "dataset_prepared_path cfg_converted = Some ''last_run_prepared''"
    by (simp add: cfg_converted_def cfg_filled_def)
  from probe_error_suppressed [OF h1 h2 h3] p
  have "do_cli ?E ''examples/'' [] world_example =
       (Inr cfg_converted,
        \<lparr>caching_enabled = True,
         trace = trace_before_probe True @
           [From_pretrained (Some ''org/unreachable-model''),
            Log_info (CHR 0x1B # ''[32mSuccess! Preprocessed data path: ''
                      @ ''`dataset_prepared_path: last_run_prepared`'' @ CHR 0x1B # ''[39m'')]\<rparr>)"
    by (auto simp: b)
  with h1 h2 h3 p show ?thesis by blast
qed



text \<open>
  C5. While the loader runs the caching of datasets is disabled, and the flag has its
  prior value again when materialization is left, whether the loader returned or
  raised; the exception of the loader is passed on. In every run of \<^verbatim>\<open>do_cli\<close> a loader
  that is called sees caching disabled, a run that returns has called one, and the flag
  at the end of the run, returned or raised, is the flag at its start.
\<close>

theorem caching_restored_on_every_exit:
  "List.map_filter seen_caching (new_events (materialize E c a) w) = [False]
   \<and> caching_enabled (snd (materialize E c a w)) = caching_enabled w
   \<and> fst (materialize E c a w) =
       (case (if truthy (rl c) then load_rl_datasets E c a else load_datasets E c a) of
          None \<Rightarrow> Inr () | Some e \<Rightarrow> Inl e)
   \<and> caching_enabled (snd (do_cli E config kw w')) = caching_enabled w'
   \<and> (List.map_filter seen_caching (new_events (do_cli E config kw) w') = []
        \<or> List.map_filter seen_caching (new_events (do_cli E config kw) w') = [False])
   \<and> (case fst (do_cli E config kw w') of
        Inl _ \<Rightarrow> True
      | Inr _ \<Rightarrow> List.map_filter seen_caching (new_events (do_cli E config kw) w') = [False])"
proof -
  have "List.map_filter seen_caching (new_events (materialize E c a) w) = [False]"
    by (cases "truthy (rl c)") (simp_all add: new_events_materialize map_filter_simps)
  moreover have "caching_enabled (snd (materialize E c a w)) = caching_enabled w"
    by (rule steady_caching) (rule steady_materialize)
  moreover have "caching_enabled (snd (do_cli E config kw w')) = caching_enabled w'"
    by (rule steady_caching) (rule steady_do_cli)
  moreover have "fst (materialize E c a w) =
       (case (if truthy (rl c) then load_rl_datasets E c a else load_datasets E c a) of
          None \<Rightarrow> Inr () | Some e \<Rightarrow> Inl e)"
    by (rule fst_materialize)
  moreover have "(case fst (do_cli E config kw w') of
        Inl _ \<Rightarrow> True
      | Inr _ \<Rightarrow> List.map_filter seen_caching (new_events (do_cli E config kw) w') = [False])"
    using seen_caching_do_cli_returns [of E config kw w'] by (simp split: sum.splits)
  ultimately show ?thesis
    using seen_caching_do_cli [of E config kw w'] by blast
qed

theorem caching_restored_on_every_exit_witness:
  "fst (materialize (env_example cfg_example True (Some (Exception ''ValueError'')) None) cfg_filled
       \<lparr>download = True\<rparr> world_example) = Inl (Exception ''ValueError'')
   \<and> caching_enabled (snd (materialize (env_example cfg_example True (Some (Exception ''ValueError'')) None)
       cfg_filled \<lparr>download = True\<rparr> world_example)) = True
   \<and> List.map_filter seen_caching
       (new_events (materialize (env_example cfg_example True (Some (Exception ''ValueError'')) None)
          cfg_filled \<lparr>download = True\<rparr>) world_example) = [False]
   \<and> fst (do_cli (env_example cfg_example True (Some (Exception ''ValueError'')) None)
            ''examples/'' [] world_example) = Inl (Exception ''ValueError'')
   \<and> caching_enabled (snd (do_cli (env_example cfg_example True (Some (Exception ''ValueError'')) None)
            ''examples/'' [] world_example)) = True
   \<and> List.map_filter seen_caching
       (new_events (do_cli (env_example cfg_example False None None) ''examples/'' [])
          world_example) = [False]
   \<and> caching_enabled (snd (do_cli (env_example cfg_example False None None)
            ''examples/'' [] world_example)) = True"
proof -
  let ?R = "env_example cfg_example True (Some (Exception ''ValueError'')) None"
  let ?E = "env_example cfg_example False None None"
  note raising = caching_restored_on_every_exit
      [of ?R cfg_filled "\<lparr>download = True\<rparr>" world_example "''examples/''" "[]" world_example]
  note returning = caching_restored_on_every_exit
      [of ?E cfg_filled "\<lparr>download = True\<rparr>" world_example "''examples/''" "[]" world_example]
  have r1: "\<not> truthy (rl cfg_filled)"
    by (simp add: cfg_filled_def cfg_example_def)
  have l1: "load_datasets ?R cfg_filled \<lparr>download = True\<rparr> = Some (Exception ''ValueError'')"
    by (simp add: env_example_def)
  have w: "caching_enabled world_example = True"
    by (simp add: world_example_def)
  have x: "fst (do_cli ?R ''examples/'' [] world_example) = Inl (Exception ''ValueError'')"
    by (simp add: do_cli_raise_example)
  have r: "fst (do_cli ?E ''examples/'' [] world_example) = Inr cfg_converted"
    by (simp add: do_cli_example)
  have 1: "fst (materialize ?R cfg_filled \<lparr>download = True\<rparr> world_example)
             = Inl (Exception ''ValueError'')"
    using raising by (simp add: r1 l1)
  have 2: "caching_enabled (snd (materialize ?R cfg_filled \<lparr>download = True\<rparr> world_example))
             = True"
    using raising by (simp add: w)
  have 3: "List.map_filter seen_caching
             (new_events (materialize ?R cfg_filled \<lparr>download = True\<rparr>) world_example) = [False]"
    using raising by simp
  have 4: "caching_enabled (snd (do_cli ?R ''examples/'' [] world_example)) = True"
    using raising by (simp add: w)
  have 5: "List.map_filter seen_caching (new_events (do_cli ?E ''examples/'' []) world_example)
             = [False]"
    using returning by (simp add: r)
  have 6: "caching_enabled (snd (do_cli ?E ''examples/'' [] world_example)) = True"
    using returning by (simp add: w)
  from 1 2 3 x 4 5 6 show ?thesis by blast
qed



text \<open>
  C7. When the first dataset's path does not end in \<^verbatim>\<open>.csv\<close>, the conversion step does
  nothing: it returns the configuration it was given and leaves the world as it is. A run
  on such a configuration never invokes the converter, and when it returns, \<^verbatim>\<open>datasets\<close>
  and \<^verbatim>\<open>dataset_file\<close> are those of the configuration that was loaded.
\<close>

theorem no_conversion_without_csv:
  assumes "datasets c = Some (d # ds)" and "\<not> endswith (path d) ''.csv''"
  shows "convert_csv E c w = (Inr c, w)
         \<and> (load_cfg E config kw = Inr c \<longrightarrow>
              filter is_convert (new_events (do_cli E config kw) w') = []
              \<and> (case fst (do_cli E config kw w') of
                    Inl _ \<Rightarrow> True
                  | Inr c' \<Rightarrow> datasets c' = datasets c \<and> dataset_file c' = dataset_file c))"
proof -
  have "convert_csv E c w = (Inr c, w)"
    using assms by (rule convert_csv_not_csv)
  moreover have "filter is_convert (new_events (do_cli E config kw) w') = []"
    if "load_cfg E config kw = Inr c"
    using that assms by (rule converts_do_cli_not_csv)
  moreover have "datasets c' = datasets c \<and> dataset_file c' = dataset_file c"
    if l: "load_cfg E config kw = Inr c" and r: "fst (do_cli E config kw w') = Inr c'" for c'
  proof -
    from do_cli_InrD [OF r] l obtain w2 where
      "fst (convert_csv E
              (if truthy (dataset_prepared_path c) then c\<lparr>is_preprocess := True\<rparr>
               else c\<lparr>is_preprocess := True,
                      dataset_prepared_path := Some (DEFAULT_DATASET_PREPARED_PATH E)\<rparr>) w2)
         = Inr c'"
      by auto
    with assms show ?thesis
      by (auto simp: fst_convert_csv split: option.splits if_splits)
  qed
  ultimately show ?thesis
    by (auto split: sum.splits)
qed

theorem no_conversion_without_csv_witness:
  "datasets (cfg_example\<lparr>datasets := Some [\<lparr>path = ''data/train.jsonl''\<rparr>]\<rparr>)
     = Some [\<lparr>path = ''data/train.jsonl''\<rparr>]
   \<and> \<not> endswith (path \<lparr>path = ''data/train.jsonl''\<rparr>) ''.csv''
   \<and> convert_csv (env_example (cfg_example\<lparr>datasets := Some [\<lparr>path = ''data/train.jsonl''\<rparr>]\<rparr>)
          False None None)
        (cfg_example\<lparr>datasets := Some [\<lparr>path = ''data/train.jsonl''\<rparr>]\<rparr>) world_example
      = (Inr (cfg_example\<lparr>datasets := Some [\<lparr>path = ''data/train.jsonl''\<rparr>]\<rparr>), world_example)
   \<and> filter is_convert
        (new_events
           (do_cli (env_example (cfg_example\<lparr>datasets := Some [\<lparr>path = ''data/train.jsonl''\<rparr>]\<rparr>)
              False None None) ''examples/'' [])
           world_example) = []"
proof -
  let ?c = "cfg_example\<lparr>datasets := Some [\<lparr>path = ''data/train.jsonl''\<rparr>]\<rparr>"
  let ?E = "env_example ?c False None None"
  have h1: "datasets ?c = Some (\<lparr>path = ''data/train.jsonl''\<rparr> # [])"
    by simp
  have h2: "\<not> endswith (path \<lparr>path = ''data/train.jsonl''\<rparr>) ''.csv''"
    by (simp add: endswith_def)
  have l: "load_cfg ?E ''examples/'' [] = Inr ?c"
    by (simp add: env_example_def)
  show ?thesis
    using no_conversion_without_csv [OF h1 h2, of ?E world_example "''examples/''" "[]"
        world_example] h2 l
    by simp
qed


text \<open>
  C1, as stated, fails. The conversion step writes the path of the JSON-lines file to the
  field \<^verbatim>\<open>dataset_file\<close> and to no other field: after the run of the example the first
  entry of \<^verbatim>\<open>datasets\<close> still names the CSV file.
\<close>

theorem config_keeps_csv_path:
  "fst (do_cli (env_example cfg_example False None None) ''examples/'' [] world_example)
     = Inr cfg_converted
   \<and> dataset_file cfg_converted = Some ''last_run_prepared/data/train.jsonl''
   \<and> datasets cfg_converted = Some [\<lparr>path = ''data/train.csv''\<rparr>]"
proof -
  have "fst (do_cli (env_example cfg_example False None None) ''examples/'' [] world_example)
          = Inr cfg_converted"
    by (simp add: do_cli_example)
  moreover have "dataset_file cfg_converted = Some ''last_run_prepared/data/train.jsonl''"
    by (simp add: cfg_converted_def)
  moreover have "datasets cfg_converted = Some [\<lparr>path = ''data/train.csv''\<rparr>]"
    by (simp add: cfg_converted_def cfg_filled_def cfg_example_def)
  ultimately show ?thesis by blast
qed

text \<open>
  C1, amended. In a run that returns, on a configuration whose first dataset path ends in
  \<^verbatim>\<open>.csv\<close> (the default constant being non-empty), the converter is invoked once, on the
  CSV file and the JSON-lines path, and the final configuration has that JSON-lines path
  in \<^verbatim>\<open>dataset_file\<close>. The entries of \<^verbatim>\<open>datasets\<close> are those that were loaded.
\<close>

theorem conversion_sets_dataset_file:
  assumes "load_cfg E config kw = Inr c0"
    and "datasets c0 = Some (d # ds)"
    and "endswith (path d) ''.csv''"
    and "DEFAULT_DATASET_PREPARED_PATH E \<noteq> []"
    and "fst (do_cli E config kw w) = Inr c'"
  shows "dataset_file c' = Some (jsonl_file_of (py_format (dataset_prepared_path c')) (path d))
         \<and> datasets c' = datasets c0
         \<and> filter is_convert (new_events (do_cli E config kw) w) =
             [Convert (path d) (jsonl_file_of (py_format (dataset_prepared_path c')) (path d))]"
  using converts_do_cli_csv [OF assms] by simp

theorem conversion_sets_dataset_file_witness:
  "load_cfg (env_example cfg_example False None None) ''examples/'' [] = Inr cfg_example
   \<and> datasets cfg_example = Some [\<lparr>path = ''data/train.csv''\<rparr>]
   \<and> endswith (path \<lparr>path = ''data/train.csv''\<rparr>) ''.csv''
   \<and> DEFAULT_DATASET_PREPARED_PATH (env_example cfg_example False None None) \<noteq> []
   \<and> fst (do_cli (env_example cfg_example False None None) ''examples/'' [] world_example)
       = Inr cfg_converted
   \<and> dataset_file cfg_converted = Some ''last_run_prepared/data/train.jsonl''
   \<and> filter is_convert
         (new_events (do_cli (env_example cfg_example False None None) ''examples/'' [])
            world_example) =
       [Convert ''data/train.csv'' ''last_run_prepared/data/train.jsonl'']"
proof -
  let ?E = "env_example cfg_example False None None"
  have h1: "load_cfg ?E ''examples/'' [] = Inr cfg_example"
    and h4: "DEFAULT_DATASET_PREPARED_PATH ?E \<noteq> []"
    by (simp_all add: env_example_def)
  have h2: "datasets cfg_example = Some (\<lparr>path = ''data/train.csv''\<rparr> # [])"
    by (simp add: cfg_example_def)
  have h3: "endswith (path \<lparr>path = ''data/train.csv''\<rparr>) ''.csv''"
    by (simp add: endswith_example)
  have h5: "fst (do_cli ?E ''examples/'' [] world_example) = Inr cfg_converted"
    by (simp add: do_cli_example)
  have p: "py_format (dataset_prepared_path cfg_converted) = ''last_run_prepared''"
    by (simp add: cfg_converted_def cfg_filled_def)
  show ?thesis
    using conversion_sets_dataset_file [OF h1 h2 h3 h4 h5] h1 h2 h3 h4 h5
    by (simp add: p jsonl_file_of_example)
qed

text \<open>
  C2, as stated, fails. The coordinator removes the extension from the whole path, not
  from the base name: for the dataset \<^verbatim>\<open>data/train.csv\<close> the converter is given the target
  \<^verbatim>\<open>last_run_prepared/data/train.jsonl\<close>, while the stem placed directly under
  \<^verbatim>\<open>dataset_prepared_path\<close> is \<^verbatim>\<open>last_run_prepared/train.jsonl\<close>.
\<close>

theorem conversion_target_keeps_directory:
  "endswith ''data/train.csv'' ''.csv''
   \<and> filter is_convert
         (new_events (do_cli (env_example cfg_example False None None) ''examples/'' [])
            world_example) =
       [Convert ''data/train.csv'' ''last_run_prepared/data/train.jsonl'']
   \<and> spec_artifact ''last_run_prepared'' ''data/train.csv'' = ''last_run_prepared/train.jsonl''"
  by (simp add: endswith_example new_events_do_cli_example trace_before_probe_def
      spec_artifact_def spec_stem_def basename_def rsplit_dot_head_def)

text \<open>
  C2, amended. For a source path that ends in \<^verbatim>\<open>.csv\<close>, the target of the conversion is
  \<^verbatim>\<open>dataset_prepared_path\<close>, a slash, the source path without its final \<^verbatim>\<open>.csv\<close>
  (directories included) and \<^verbatim>\<open>.jsonl\<close>. It is a function of the two paths, and it is
  the stem with the extension \<^verbatim>\<open>.jsonl\<close> directly under \<^verbatim>\<open>dataset_prepared_path\<close> exactly
  when the source path has no slash. The conversion step hands this target to the
  converter.
\<close>

theorem conversion_target_path:
  assumes "endswith (path d) ''.csv''"
  shows "jsonl_file_of prepared (path d) =
           prepared @ ''/'' @ take (length (path d) - 4) (path d) @ ''.jsonl''
         \<and> (jsonl_file_of prepared (path d) = spec_artifact prepared (path d)
              \<longleftrightarrow> CHR ''/'' \<notin> set (path d))
         \<and> (dataset_prepared_path c = Some prepared \<and> prepared \<noteq> []
              \<and> datasets c = Some (d # ds) \<longrightarrow>
              filter is_convert (new_events (convert_csv E c) w) =
                [Convert (path d) (jsonl_file_of prepared (path d))])"
proof -
  have "jsonl_file_of prepared (path d) = spec_artifact prepared (path d)
          \<longleftrightarrow> CHR ''/'' \<notin> set (path d)"
    using basename_id [of "take (length (path d) - 4) (path d)"] slash_in_csv [OF assms]
    by (auto simp: jsonl_file_of_csv [OF assms] spec_artifact_csv [OF assms])
  moreover have "filter is_convert (new_events (convert_csv E c) w) =
                   [Convert (path d) (jsonl_file_of prepared (path d))]"
    if "dataset_prepared_path c = Some prepared" "prepared \<noteq> []" "datasets c = Some (d # ds)"
    using that assms by (simp add: converts_convert)
  ultimately show ?thesis
    using jsonl_file_of_csv [OF assms] by blast
qed

theorem conversion_target_path_witness:
  "endswith (path \<lparr>path = ''train.csv''\<rparr>) ''.csv''
   \<and> jsonl_file_of ''out'' (path \<lparr>path = ''train.csv''\<rparr>) = ''out/train.jsonl''
   \<and> spec_artifact ''out'' (path \<lparr>path = ''train.csv''\<rparr>) = ''out/train.jsonl''
   \<and> filter is_convert
         (new_events
            (convert_csv (env_example cfg_example False None None)
               (cfg_example\<lparr>dataset_prepared_path := Some ''out'',
                             datasets := Some [\<lparr>path = ''train.csv''\<rparr>]\<rparr>))
            world_example) =
       [Convert ''train.csv'' ''out/train.jsonl'']"
proof -
  let ?d = "\<lparr>path = ''train.csv''\<rparr>"
  let ?c = "cfg_example\<lparr>dataset_prepared_path := Some ''out'', datasets := Some [?d]\<rparr>"
  have h: "endswith (path ?d) ''.csv''"
    by (simp add: endswith_def)
  have s: "CHR ''/'' \<notin> set (path ?d)"
    by simp
  have c: "dataset_prepared_path ?c = Some ''out'' \<and> ''out'' \<noteq> [] \<and> datasets ?c = Some (?d # [])"
    by simp
  have t: "take (length (path ?d) - 4) (path ?d) = ''train''"
    by simp
  note conj = conversion_target_path [OF h, of "''out''" ?c "[]"
      "env_example cfg_example False None None" world_example]
  have a0: "jsonl_file_of ''out'' (path ?d) =
              ''out'' @ ''/'' @ take (length (path ?d) - 4) (path ?d) @ ''.jsonl''"
    using conj by blast
  have a: "jsonl_file_of ''out'' (path ?d) = ''out/train.jsonl''"
    unfolding a0 t by simp
  have b: "jsonl_file_of ''out'' (path ?d) = spec_artifact ''out'' (path ?d)"
    using conj s by blast
  have e: "filter is_convert
           (new_events (convert_csv (env_example cfg_example False None None) ?c) world_example) =
         [Convert (path ?d) (jsonl_file_of ''out'' (path ?d))]"
    using conj c by blast
  have b': "spec_artifact ''out'' (path ?d) = ''out/train.jsonl''"
    using a b by simp
  have e': "filter is_convert
           (new_events (convert_csv (env_example cfg_example False None None) ?c) world_example) =
         [Convert ''train.csv'' ''out/train.jsonl'']"
    using e a by simp
  show ?thesis
    using h a b' e' by blast
qed







end
